theory Spec2Isabelle
  imports Main
begin

section \<open>Data model of \<open>chains/conversation/base.py\<close>\<close>

text \<open>
  The two collaborators are seen through the attributes the chain reads:
  \<open>memory.memory_variables\<close>, \<open>memory.input_key\<close> (a string or Python's \<open>None\<close>)
  and \<open>prompt.input_variables\<close>.
\<close>

record BaseMemory =
  memory_variables :: "string list"
  input_key :: "string option"

record BasePromptTemplate =
  input_variables :: "string list"

text \<open>
  The fields of the class \<open>ConversationChain\<close> (lines 22 to 28). The attribute
  \<open>memory\<close> is a Python reference, which the constructor itself compares with
  \<open>None\<close> (line 44), so it is an option here.
\<close>

record ConversationChain =
  memory :: "BaseMemory option"
  prompt :: BasePromptTemplate
  input_key :: string
  output_key :: string

text \<open>
  The keyword arguments of a constructor call: \<open>None\<close> is an argument left out.
  The field \<open>memory\<close> is declared with the type \<open>BaseMemory\<close>, which excludes an
  explicit \<open>None\<close>, so an argument that is given is a store.
\<close>

record kwargs =
  kw_memory :: "BaseMemory option"
  kw_prompt :: "BasePromptTemplate option"
  kw_input_key :: "string option"
  kw_output_key :: "string option"

text \<open>
  The two imported defaults, whose modules are outside this file: what the default
  factory \<open>ConversationBufferMemory\<close> builds and the constant \<open>PROMPT\<close>. They are
  parameters of the construction.
\<close>

record defaults =
  ConversationBufferMemory :: BaseMemory
  PROMPT :: BasePromptTemplate

text \<open>
  Every \<open>raise\<close> of the file is a \<open>ValueError\<close>; the constructors below tell the
  three places apart and carry the values their messages interpolate:
  line 45 (no payload), lines 53 to 56 (\<open>input_key\<close>, \<open>memory_keys\<close>) and lines 60 to
  63 (\<open>expected_keys\<close>, \<open>prompt_variables\<close>). \<open>AttributeError\<close> is what reading
  \<open>.memory_variables\<close> of \<open>None\<close> raises on line 50.
\<close>

datatype error =
  MissingMemoryInputKey
  | InputKeyCollision string "string list"
  | PromptMemoryMismatch "string list" "string list"
  | AttributeError


section \<open>Operations\<close>

text \<open>
  Field assignment of \<open>super().__init__(**kwargs)\<close>: a field left out takes its
  declared default (lines 22, 24, 27, 28).
\<close>

definition assign_fields :: "defaults \<Rightarrow> kwargs \<Rightarrow> ConversationChain" where
  "assign_fields dflt kw =
     \<lparr> memory = Some (case kw_memory kw of
                        None \<Rightarrow> ConversationBufferMemory dflt
                      | Some m \<Rightarrow> m),
       prompt = (case kw_prompt kw of None \<Rightarrow> PROMPT dflt | Some p \<Rightarrow> p),
       input_key = (case kw_input_key kw of None \<Rightarrow> ''input'' | Some k \<Rightarrow> k),
       output_key = (case kw_output_key kw of None \<Rightarrow> ''response'' | Some k \<Rightarrow> k) \<rparr>"

text \<open>The root validator, lines 47 to 64.\<close>

definition validate_prompt_input_variables ::
    "ConversationChain \<Rightarrow> error + ConversationChain" where
  "validate_prompt_input_variables values =
     (case memory values of
        None \<Rightarrow> Inl AttributeError
      | Some m \<Rightarrow>
          let memory_keys = memory_variables m;
              k = input_key values
          in if k \<in> set memory_keys
             then Inl (InputKeyCollision k memory_keys)
             else
               let prompt_variables = input_variables (prompt values);
                   expected_keys = memory_keys @ [k]
               in if \<not> set expected_keys \<subseteq> set prompt_variables
                  then Inl (PromptMemoryMismatch expected_keys prompt_variables)
                  else Inr values)"

text \<open>
  The property \<open>input_keys\<close>, lines 36 to 39. It reads one field and writes none.
\<close>

definition input_keys :: "ConversationChain \<Rightarrow> string list" where
  "input_keys self = [input_key self]"

text \<open>
  The constructor, lines 41 to 45: the fields are assigned and the root validator runs
  inside \<open>super().__init__\<close>; an exception there leaves the constructor at once. Only
  then is the memory's input key looked at (the test \<open>self.memory is not None\<close> is the
  \<open>case\<close> on the reference).
\<close>

definition init :: "defaults \<Rightarrow> kwargs \<Rightarrow> error + ConversationChain" where
  "init dflt kw =
     (case validate_prompt_input_variables (assign_fields dflt kw) of
        Inl e \<Rightarrow> Inl e
      | Inr self \<Rightarrow>
          (case memory self of
             None \<Rightarrow> Inr self
           | Some m \<Rightarrow>
               if BaseMemory.input_key m = None
               then Inl MissingMemoryInputKey
               else Inr self))"


text \<open>
  An assignment to a field of a constructed chain, as in \<open>chain.input_key = value\<close>.
  The class's \<open>Config\<close> (lines 30 to 34) sets \<open>extra\<close> and \<open>arbitrary_types_allowed\<close>
  and nothing else: the model is not frozen and assignments are not validated, so the
  field is written and \<open>validate_prompt_input_variables\<close> does not run again.
\<close>

datatype assignment =
  Set_memory BaseMemory
  | Set_prompt BasePromptTemplate
  | Set_input_key string
  | Set_output_key string

fun setattr :: "ConversationChain \<Rightarrow> assignment \<Rightarrow> ConversationChain" where
  "setattr self (Set_memory value) = self\<lparr>memory := Some value\<rparr>"
| "setattr self (Set_prompt value) = self\<lparr>prompt := value\<rparr>"
| "setattr self (Set_input_key value) = self\<lparr>input_key := value\<rparr>"
| "setattr self (Set_output_key value) = self\<lparr>output_key := value\<rparr>"


section \<open>The constructor, branch by branch\<close>

lemma memory_assign_fields:
  "memory (assign_fields dflt kw) =
     Some (case kw_memory kw of None \<Rightarrow> ConversationBufferMemory dflt | Some m \<Rightarrow> m)"
  by (simp add: assign_fields_def)

lemma init_branches:
  assumes "memory (assign_fields dflt kw) = Some m"
  shows "init dflt kw =
     (if input_key (assign_fields dflt kw) \<in> set (memory_variables m)
      then Inl (InputKeyCollision (input_key (assign_fields dflt kw)) (memory_variables m))
      else if \<not> set (memory_variables m @ [input_key (assign_fields dflt kw)])
                  \<subseteq> set (input_variables (prompt (assign_fields dflt kw)))
      then Inl (PromptMemoryMismatch
                  (memory_variables m @ [input_key (assign_fields dflt kw)])
                  (input_variables (prompt (assign_fields dflt kw))))
      else if BaseMemory.input_key m = None
      then Inl MissingMemoryInputKey
      else Inr (assign_fields dflt kw))"
  using assms by (simp add: init_def validate_prompt_input_variables_def Let_def)

lemma init_Inr_fields:
  assumes "init dflt kw = Inr c"
  shows "c = assign_fields dflt kw"
proof -
  obtain m where m: "memory (assign_fields dflt kw) = Some m"
    by (simp add: memory_assign_fields)
  show ?thesis
    using assms init_branches [OF m] by (simp split: if_splits)
qed


lemma assign_fields_output_key:
  "assign_fields dflt (kw\<lparr>kw_output_key := a\<rparr>) =
     (assign_fields dflt kw)
       \<lparr>output_key := (case a of None \<Rightarrow> ''response'' | Some k \<Rightarrow> k)\<rparr>"
  by (simp add: assign_fields_def)

lemma init_output_key:
  "init dflt (kw\<lparr>kw_output_key := a\<rparr>) =
     map_sum id (\<lambda>c. c\<lparr>output_key := (case a of None \<Rightarrow> ''response'' | Some k \<Rightarrow> k)\<rparr>)
       (init dflt kw)"
proof -
  obtain m where m: "memory (assign_fields dflt kw) = Some m"
    by (simp add: memory_assign_fields)
  then have m': "memory (assign_fields dflt (kw\<lparr>kw_output_key := a\<rparr>)) = Some m"
    by (simp add: assign_fields_output_key)
  show ?thesis
    unfolding init_branches [OF m] init_branches [OF m']
    by (simp add: assign_fields_output_key)
qed

lemma init_default_memory:
  assumes "kw_memory kw = None"
  shows "init dflt kw = init dflt (kw\<lparr>kw_memory := Some (ConversationBufferMemory dflt)\<rparr>)"
proof -
  from assms
  have "assign_fields dflt (kw\<lparr>kw_memory := Some (ConversationBufferMemory dflt)\<rparr>)
          = assign_fields dflt kw"
    by (simp add: assign_fields_def)
  then show ?thesis
    by (simp add: init_def)
qed


section \<open>Failures of the construction\<close>

text \<open>
  C1. Whenever the input key is one of the memory's variables, the construction fails in
  the collision branch of the validator, and the error carries the offending key and the
  whole list of memory keys. Nothing is asked of the prompt or of the memory's own input
  key.
\<close>

theorem collision_detection:
  assumes "assign_fields dflt kw = v"
    and "memory v = Some m"
    and "input_key v \<in> set (memory_variables m)"
  shows "init dflt kw = Inl (InputKeyCollision (input_key v) (memory_variables m))"
  using assms init_branches [of dflt kw m] by simp

theorem collision_detection_witness:
  "''history'' \<in> set [''history'', ''summary'']
   \<and> init \<lparr>ConversationBufferMemory =
               \<lparr>memory_variables = [''history''], BaseMemory.input_key = None\<rparr>,
             PROMPT = \<lparr>input_variables = [''history'', ''input'']\<rparr>\<rparr>
           \<lparr>kw_memory = Some \<lparr>memory_variables = [''history'', ''summary''],
                               BaseMemory.input_key = Some ''input''\<rparr>,
             kw_prompt = None, kw_input_key = Some ''history'', kw_output_key = None\<rparr>
       = Inl (InputKeyCollision ''history'' [''history'', ''summary''])"
  (is "_ \<and> init ?D ?KW = _")
proof -
  let ?M = "\<lparr>memory_variables = [''history'', ''summary''],
             BaseMemory.input_key = Some ''input''\<rparr>"
  have m: "memory (assign_fields ?D ?KW) = Some ?M"
    by (simp add: assign_fields_def)
  have k: "input_key (assign_fields ?D ?KW) \<in> set (memory_variables ?M)"
    by (simp add: assign_fields_def)
  from collision_detection [OF refl m k] show ?thesis
    by (simp add: assign_fields_def)
qed

text \<open>
  C2, as stated: whenever the memory keys together with the input key are not all
  prompt variables, the construction fails in the mismatch branch. This is false when the
  input key is also a memory key: the collision branch comes first in the validator. With
  memory keys \<open>["input"]\<close>, input key \<open>"input"\<close> and a prompt without variables the
  subset test would fail, and the error is the collision.
\<close>

theorem subset_enforcement_counterexample:
  "\<not> set ([''input''] @ [''input'']) \<subseteq> set ([] :: string list)
   \<and> init \<lparr>ConversationBufferMemory =
               \<lparr>memory_variables = [''history''], BaseMemory.input_key = None\<rparr>,
             PROMPT = \<lparr>input_variables = [''history'', ''input'']\<rparr>\<rparr>
           \<lparr>kw_memory = Some \<lparr>memory_variables = [''input''],
                               BaseMemory.input_key = Some ''input''\<rparr>,
             kw_prompt = Some \<lparr>input_variables = []\<rparr>,
             kw_input_key = Some ''input'', kw_output_key = None\<rparr>
       = Inl (InputKeyCollision ''input'' [''input''])
   \<and> InputKeyCollision ''input'' [''input'']
       \<noteq> PromptMemoryMismatch ([''input''] @ [''input'']) []"
  by (simp add: init_def validate_prompt_input_variables_def assign_fields_def Let_def)

text \<open>
  C2, amended: when the input key is not a memory key and the memory keys together with
  the input key are not all prompt variables, the construction fails in the mismatch
  branch, and the error carries the expected keys (memory keys, then the input key) and
  the prompt's variables.
\<close>

theorem subset_enforcement:
  assumes "assign_fields dflt kw = v"
    and "memory v = Some m"
    and "input_key v \<notin> set (memory_variables m)"
    and "\<not> set (memory_variables m) \<union> {input_key v} \<subseteq> set (input_variables (prompt v))"
  shows "init dflt kw =
           Inl (PromptMemoryMismatch (memory_variables m @ [input_key v])
                  (input_variables (prompt v)))"
  using assms init_branches [of dflt kw m] by auto

theorem subset_enforcement_witness:
  "''input'' \<notin> set [''history'']
   \<and> \<not> set [''history''] \<union> {''input''} \<subseteq> set [''input'']
   \<and> init \<lparr>ConversationBufferMemory =
               \<lparr>memory_variables = [''history''], BaseMemory.input_key = None\<rparr>,
             PROMPT = \<lparr>input_variables = [''history'', ''input'']\<rparr>\<rparr>
           \<lparr>kw_memory = Some \<lparr>memory_variables = [''history''],
                               BaseMemory.input_key = Some ''input''\<rparr>,
             kw_prompt = Some \<lparr>input_variables = [''input'']\<rparr>,
             kw_input_key = Some ''input'', kw_output_key = None\<rparr>
       = Inl (PromptMemoryMismatch [''history'', ''input''] [''input''])"
  (is "_ \<and> _ \<and> init ?D ?KW = _")
proof -
  let ?M = "\<lparr>memory_variables = [''history''], BaseMemory.input_key = Some ''input''\<rparr>"
  have m: "memory (assign_fields ?D ?KW) = Some ?M"
    by (simp add: assign_fields_def)
  have k: "input_key (assign_fields ?D ?KW) \<notin> set (memory_variables ?M)"
    by (simp add: assign_fields_def)
  have p: "\<not> set (memory_variables ?M) \<union> {input_key (assign_fields ?D ?KW)}
             \<subseteq> set (input_variables (prompt (assign_fields ?D ?KW)))"
    by (simp add: assign_fields_def)
  from subset_enforcement [OF refl m k p] show ?thesis
    by (simp add: assign_fields_def)
qed

text \<open>
  C3, as stated: a memory whose input key is unset always makes the construction fail
  with the missing-key error, whatever the memory keys and the prompt variables, this
  test being the first. In the constructor the test is the last statement, after
  \<open>super().__init__\<close> has run the validator: with memory keys \<open>["input"]\<close>, input key
  \<open>"input"\<close> and an unset memory input key the error is the collision.
\<close>

theorem unset_memory_key_counterexample:
  "BaseMemory.input_key
     \<lparr>memory_variables = [''input''], BaseMemory.input_key = None\<rparr> = None
   \<and> init \<lparr>ConversationBufferMemory =
               \<lparr>memory_variables = [''history''], BaseMemory.input_key = None\<rparr>,
             PROMPT = \<lparr>input_variables = [''history'', ''input'']\<rparr>\<rparr>
           \<lparr>kw_memory = Some \<lparr>memory_variables = [''input''],
                               BaseMemory.input_key = None\<rparr>,
             kw_prompt = Some \<lparr>input_variables = [''input'']\<rparr>,
             kw_input_key = Some ''input'', kw_output_key = None\<rparr>
       = Inl (InputKeyCollision ''input'' [''input''])
   \<and> InputKeyCollision ''input'' [''input''] \<noteq> MissingMemoryInputKey"
  by (simp add: init_def validate_prompt_input_variables_def assign_fields_def Let_def)

text \<open>
  C3, amended: a memory whose input key is unset always makes the construction fail,
  whatever the memory keys and the prompt variables. The test of the memory's input key
  is performed last, after the collision and subset tests: the failure is the collision
  error when the input key is a memory key, otherwise the mismatch error when the memory
  keys together with the input key are not all prompt variables, and the missing-key
  error only when both of these tests pass.
\<close>

theorem unset_memory_key_rejection:
  assumes "assign_fields dflt kw = v"
    and "memory v = Some m"
    and "BaseMemory.input_key m = None"
  shows "(\<exists>e. init dflt kw = Inl e)
       \<and> (input_key v \<notin> set (memory_variables m)
            \<and> set (memory_variables m) \<union> {input_key v} \<subseteq> set (input_variables (prompt v))
          \<longrightarrow> init dflt kw = Inl MissingMemoryInputKey)
       \<and> init dflt kw =
           (if input_key v \<in> set (memory_variables m)
            then Inl (InputKeyCollision (input_key v) (memory_variables m))
            else if \<not> set (memory_variables m) \<union> {input_key v}
                        \<subseteq> set (input_variables (prompt v))
            then Inl (PromptMemoryMismatch (memory_variables m @ [input_key v])
                        (input_variables (prompt v)))
            else Inl MissingMemoryInputKey)"
  using assms init_branches [of dflt kw m] by auto

theorem unset_memory_key_rejection_witness:
  "BaseMemory.input_key
     \<lparr>memory_variables = [''history''], BaseMemory.input_key = None\<rparr> = None
   \<and> ''input'' \<notin> set [''history'']
   \<and> set [''history''] \<union> {''input''} \<subseteq> set [''history'', ''input'']
   \<and> init \<lparr>ConversationBufferMemory =
               \<lparr>memory_variables = [''history''], BaseMemory.input_key = None\<rparr>,
             PROMPT = \<lparr>input_variables = [''history'', ''input'']\<rparr>\<rparr>
           \<lparr>kw_memory = None, kw_prompt = None, kw_input_key = None, kw_output_key = None\<rparr>
       = Inl MissingMemoryInputKey
   \<and> ''history'' \<in> set [''history'']
   \<and> init \<lparr>ConversationBufferMemory =
               \<lparr>memory_variables = [''history''], BaseMemory.input_key = None\<rparr>,
             PROMPT = \<lparr>input_variables = [''history'', ''input'']\<rparr>\<rparr>
           \<lparr>kw_memory = None, kw_prompt = None,
             kw_input_key = Some ''history'', kw_output_key = None\<rparr>
       = Inl (InputKeyCollision ''history'' [''history''])
   \<and> \<not> set [''history''] \<union> {''input''} \<subseteq> set [''input'']
   \<and> init \<lparr>ConversationBufferMemory =
               \<lparr>memory_variables = [''history''], BaseMemory.input_key = None\<rparr>,
             PROMPT = \<lparr>input_variables = [''history'', ''input'']\<rparr>\<rparr>
           \<lparr>kw_memory = None, kw_prompt = Some \<lparr>input_variables = [''input'']\<rparr>,
             kw_input_key = None, kw_output_key = None\<rparr>
       = Inl (PromptMemoryMismatch [''history'', ''input''] [''input''])"
  (is "_ \<and> _ \<and> _ \<and> init ?D ?KW1 = _ \<and> _ \<and> init ?D ?KW2 = _ \<and> _ \<and> init ?D ?KW3 = _")
proof -
  let ?M = "\<lparr>memory_variables = [''history''], BaseMemory.input_key = None\<rparr>"
  have n: "BaseMemory.input_key ?M = None"
    by simp
  have m1: "memory (assign_fields ?D ?KW1) = Some ?M"
    and m2: "memory (assign_fields ?D ?KW2) = Some ?M"
    and m3: "memory (assign_fields ?D ?KW3) = Some ?M"
    by (simp_all add: assign_fields_def)
  have 1: "init ?D ?KW1 = Inl MissingMemoryInputKey"
    using unset_memory_key_rejection [OF refl m1 n] by (simp add: assign_fields_def)
  have 2: "init ?D ?KW2 = Inl (InputKeyCollision ''history'' [''history''])"
    using unset_memory_key_rejection [OF refl m2 n] by (simp add: assign_fields_def)
  have 3: "init ?D ?KW3 = Inl (PromptMemoryMismatch [''history'', ''input''] [''input''])"
    using unset_memory_key_rejection [OF refl m3 n] by (simp add: assign_fields_def)
  from 1 2 3 show ?thesis
    by simp
qed

text \<open>
  C4. The collision test precedes the subset test: when the input key is a memory key
  the error is the collision, and no mismatch error is raised, also when the memory keys
  and the input key are not all prompt variables.
\<close>

theorem collision_precedes_subset:
  assumes "assign_fields dflt kw = v"
    and "memory v = Some m"
    and "input_key v \<in> set (memory_variables m)"
    and "\<not> set (memory_variables m) \<union> {input_key v} \<subseteq> set (input_variables (prompt v))"
  shows "init dflt kw = Inl (InputKeyCollision (input_key v) (memory_variables m))
       \<and> (\<forall>expected actual. init dflt kw \<noteq> Inl (PromptMemoryMismatch expected actual))"
  using assms(1-3) init_branches [of dflt kw m] by simp

theorem collision_precedes_subset_witness:
  "''input'' \<in> set [''input'']
   \<and> \<not> set [''input''] \<union> {''input''} \<subseteq> set [''history'']
   \<and> init \<lparr>ConversationBufferMemory =
               \<lparr>memory_variables = [''history''], BaseMemory.input_key = None\<rparr>,
             PROMPT = \<lparr>input_variables = [''history'', ''input'']\<rparr>\<rparr>
           \<lparr>kw_memory = Some \<lparr>memory_variables = [''input''],
                               BaseMemory.input_key = Some ''input''\<rparr>,
             kw_prompt = Some \<lparr>input_variables = [''history'']\<rparr>,
             kw_input_key = Some ''input'', kw_output_key = None\<rparr>
       = Inl (InputKeyCollision ''input'' [''input''])"
  (is "_ \<and> _ \<and> init ?D ?KW = _")
proof -
  let ?M = "\<lparr>memory_variables = [''input''], BaseMemory.input_key = Some ''input''\<rparr>"
  have m: "memory (assign_fields ?D ?KW) = Some ?M"
    by (simp add: assign_fields_def)
  have k: "input_key (assign_fields ?D ?KW) \<in> set (memory_variables ?M)"
    by (simp add: assign_fields_def)
  have p: "\<not> set (memory_variables ?M) \<union> {input_key (assign_fields ?D ?KW)}
             \<subseteq> set (input_variables (prompt (assign_fields ?D ?KW)))"
    by (simp add: assign_fields_def)
  from collision_precedes_subset [OF refl m k p] show ?thesis
    by (simp add: assign_fields_def)
qed

text \<open>
  C9. The order the constructor implements: the missing-key error is raised exactly
  when the memory's input key is unset and both tests of the validator pass. With an
  unset memory input key, an input key among the memory keys gives the collision error,
  and otherwise memory keys or an input key missing from the prompt give the mismatch
  error.
\<close>

theorem missing_key_checked_last:
  assumes "assign_fields dflt kw = v"
    and "memory v = Some m"
  shows "(init dflt kw = Inl MissingMemoryInputKey
          \<longleftrightarrow> BaseMemory.input_key m = None
              \<and> input_key v \<notin> set (memory_variables m)
              \<and> set (memory_variables m) \<union> {input_key v}
                  \<subseteq> set (input_variables (prompt v)))
       \<and> (BaseMemory.input_key m = None \<and> input_key v \<in> set (memory_variables m)
          \<longrightarrow> init dflt kw = Inl (InputKeyCollision (input_key v) (memory_variables m)))
       \<and> (BaseMemory.input_key m = None \<and> input_key v \<notin> set (memory_variables m)
            \<and> \<not> set (memory_variables m) \<union> {input_key v}
                  \<subseteq> set (input_variables (prompt v))
          \<longrightarrow> init dflt kw =
                Inl (PromptMemoryMismatch (memory_variables m @ [input_key v])
                       (input_variables (prompt v))))"
  using assms init_branches [of dflt kw m] by auto

theorem missing_key_checked_last_witness:
  "init \<lparr>ConversationBufferMemory =
            \<lparr>memory_variables = [''history''], BaseMemory.input_key = None\<rparr>,
          PROMPT = \<lparr>input_variables = [''history'', ''input'']\<rparr>\<rparr>
        \<lparr>kw_memory = Some \<lparr>memory_variables = [''history''],
                            BaseMemory.input_key = None\<rparr>,
          kw_prompt = Some \<lparr>input_variables = [''input'']\<rparr>,
          kw_input_key = None, kw_output_key = None\<rparr>
     = Inl (PromptMemoryMismatch [''history'', ''input''] [''input''])
   \<and> init \<lparr>ConversationBufferMemory =
              \<lparr>memory_variables = [''history''], BaseMemory.input_key = None\<rparr>,
            PROMPT = \<lparr>input_variables = [''history'', ''input'']\<rparr>\<rparr>
          \<lparr>kw_memory = Some \<lparr>memory_variables = [''history''],
                              BaseMemory.input_key = None\<rparr>,
            kw_prompt = Some \<lparr>input_variables = [''input'']\<rparr>,
            kw_input_key = None, kw_output_key = None\<rparr>
       \<noteq> Inl MissingMemoryInputKey"
  (is "init ?D ?KW = _ \<and> _")
proof -
  let ?M = "\<lparr>memory_variables = [''history''], BaseMemory.input_key = None\<rparr>"
  have m: "memory (assign_fields ?D ?KW) = Some ?M"
    by (simp add: assign_fields_def)
  have "BaseMemory.input_key ?M = None
        \<and> input_key (assign_fields ?D ?KW) \<notin> set (memory_variables ?M)
        \<and> \<not> set (memory_variables ?M) \<union> {input_key (assign_fields ?D ?KW)}
              \<subseteq> set (input_variables (prompt (assign_fields ?D ?KW)))"
    by (simp add: assign_fields_def)
  with missing_key_checked_last [OF refl m]
  have "init ?D ?KW \<noteq> Inl MissingMemoryInputKey
        \<and> init ?D ?KW =
            Inl (PromptMemoryMismatch
                   (memory_variables ?M @ [input_key (assign_fields ?D ?KW)])
                   (input_variables (prompt (assign_fields ?D ?KW))))"
    by blast
  then show ?thesis
    by (simp add: assign_fields_def)
qed


section \<open>Successful construction\<close>

text \<open>
  C7. When the input key is not a memory key, the memory keys and the input key are all
  prompt variables and the memory's input key is set, the construction succeeds and
  returns the assigned fields; the prompt may have further variables. The required input
  keys of the result are the input key alone.
\<close>

theorem success_path:
  assumes "assign_fields dflt kw = v"
    and "memory v = Some m"
    and "BaseMemory.input_key m = Some ik"
    and "input_key v \<notin> set (memory_variables m)"
    and "set (memory_variables m) \<union> {input_key v} \<subseteq> set (input_variables (prompt v))"
  shows "init dflt kw = Inr v \<and> input_keys v = [input_key v]"
  using assms init_branches [of dflt kw m] by (auto simp add: input_keys_def)

theorem success_path_witness:
  "init \<lparr>ConversationBufferMemory =
            \<lparr>memory_variables = [''history''], BaseMemory.input_key = None\<rparr>,
          PROMPT = \<lparr>input_variables = [''history'', ''input'']\<rparr>\<rparr>
        \<lparr>kw_memory = Some \<lparr>memory_variables = [''history''],
                            BaseMemory.input_key = Some ''input''\<rparr>,
          kw_prompt = Some \<lparr>input_variables = [''history'', ''input'', ''extra'']\<rparr>,
          kw_input_key = Some ''input'', kw_output_key = None\<rparr>
     = Inr \<lparr>memory = Some \<lparr>memory_variables = [''history''],
                             BaseMemory.input_key = Some ''input''\<rparr>,
            prompt = \<lparr>input_variables = [''history'', ''input'', ''extra'']\<rparr>,
            input_key = ''input'', output_key = ''response''\<rparr>
   \<and> init \<lparr>ConversationBufferMemory =
              \<lparr>memory_variables = [''history''], BaseMemory.input_key = None\<rparr>,
            PROMPT = \<lparr>input_variables = [''history'', ''input'']\<rparr>\<rparr>
          \<lparr>kw_memory = Some \<lparr>memory_variables = [''history''],
                              BaseMemory.input_key = Some ''input''\<rparr>,
            kw_prompt = Some \<lparr>input_variables = [''history'', ''input'']\<rparr>,
            kw_input_key = Some ''input'', kw_output_key = None\<rparr>
       = Inr \<lparr>memory = Some \<lparr>memory_variables = [''history''],
                               BaseMemory.input_key = Some ''input''\<rparr>,
              prompt = \<lparr>input_variables = [''history'', ''input'']\<rparr>,
              input_key = ''input'', output_key = ''response''\<rparr>
   \<and> input_keys \<lparr>memory = Some \<lparr>memory_variables = [''history''],
                                     BaseMemory.input_key = Some ''input''\<rparr>,
                    prompt = \<lparr>input_variables = [''history'', ''input'']\<rparr>,
                    input_key = ''input'', output_key = ''response''\<rparr>
       = [''input'']"
  (is "init ?D ?KW1 = Inr ?C1 \<and> init ?D ?KW2 = Inr ?C2 \<and> _")
proof -
  let ?M = "\<lparr>memory_variables = [''history''], BaseMemory.input_key = Some ''input''\<rparr>"
  have v1: "assign_fields ?D ?KW1 = ?C1" and v2: "assign_fields ?D ?KW2 = ?C2"
    by (simp_all add: assign_fields_def)
  have m1: "memory ?C1 = Some ?M" and m2: "memory ?C2 = Some ?M"
    by simp_all
  have i: "BaseMemory.input_key ?M = Some ''input''"
    by simp
  have k1: "input_key ?C1 \<notin> set (memory_variables ?M)"
    and k2: "input_key ?C2 \<notin> set (memory_variables ?M)"
    by simp_all
  have p1: "set (memory_variables ?M) \<union> {input_key ?C1}
              \<subseteq> set (input_variables (prompt ?C1))"
    and p2: "set (memory_variables ?M) \<union> {input_key ?C2}
              \<subseteq> set (input_variables (prompt ?C2))"
    by simp_all
  from success_path [OF v1 m1 i k1 p1] success_path [OF v2 m2 i k2 p2]
  show ?thesis
    by simp
qed

text \<open>
  C5. On a chain that was constructed, \<open>input_keys\<close> is the one-element list of the
  chain's input key, which is the key given to the constructor (or its default). None of
  the memory's variables is in it, however many there are. The result is a function of the
  field \<open>input_key\<close> alone, so that every call on the same chain gives the same list.
\<close>

theorem required_key_stability:
  assumes "init dflt kw = Inr c"
  shows "input_keys c = [input_key c]
       \<and> input_key c = (case kw_input_key kw of None \<Rightarrow> ''input'' | Some k \<Rightarrow> k)
       \<and> (\<forall>m. memory c = Some m \<longrightarrow> set (input_keys c) \<inter> set (memory_variables m) = {})
       \<and> (\<forall>c'. input_key c' = input_key c \<longrightarrow> input_keys c' = input_keys c)"
proof -
  have c: "c = assign_fields dflt kw"
    using assms by (rule init_Inr_fields)
  obtain m where m: "memory (assign_fields dflt kw) = Some m"
    by (simp add: memory_assign_fields)
  have "input_key (assign_fields dflt kw) \<notin> set (memory_variables m)"
    using assms init_branches [OF m] by (simp split: if_splits)
  with c m show ?thesis
    by (simp add: input_keys_def assign_fields_def)
qed

theorem required_key_stability_witness:
  "init \<lparr>ConversationBufferMemory =
            \<lparr>memory_variables = [''history''], BaseMemory.input_key = None\<rparr>,
          PROMPT = \<lparr>input_variables = [''history'', ''input'']\<rparr>\<rparr>
        \<lparr>kw_memory = Some \<lparr>memory_variables = [''history'', ''summary''],
                            BaseMemory.input_key = Some ''question''\<rparr>,
          kw_prompt = Some \<lparr>input_variables =
                               [''summary'', ''history'', ''question'', ''extra'']\<rparr>,
          kw_input_key = Some ''question'', kw_output_key = None\<rparr>
     = Inr \<lparr>memory = Some \<lparr>memory_variables = [''history'', ''summary''],
                             BaseMemory.input_key = Some ''question''\<rparr>,
            prompt = \<lparr>input_variables = [''summary'', ''history'', ''question'', ''extra'']\<rparr>,
            input_key = ''question'', output_key = ''response''\<rparr>
   \<and> input_keys \<lparr>memory = Some \<lparr>memory_variables = [''history'', ''summary''],
                                     BaseMemory.input_key = Some ''question''\<rparr>,
                    prompt = \<lparr>input_variables =
                                [''summary'', ''history'', ''question'', ''extra'']\<rparr>,
                    input_key = ''question'', output_key = ''response''\<rparr>
       = [''question'']"
  (is "init ?D ?KW = Inr ?C \<and> _")
proof -
  have c: "init ?D ?KW = Inr ?C"
    by (simp add: init_def validate_prompt_input_variables_def assign_fields_def Let_def)
  from required_key_stability [OF c] have "input_keys ?C = [input_key ?C]"
    by blast
  with c show ?thesis
    by simp
qed

text \<open>
  C6, as stated: I1 and I2 hold of every constructed chain and are never relaxed
  afterwards. The second half is false: the class does not freeze its fields, and an
  assignment is not validated. A chain constructed with memory keys \<open>["history"]\<close> and
  input key \<open>"input"\<close> satisfies I1; after \<open>chain.input_key = "history"\<close> its input key
  is one of its memory's variables.
\<close>

theorem invariants_after_construction_counterexample:
  "init \<lparr>ConversationBufferMemory =
            \<lparr>memory_variables = [''history''], BaseMemory.input_key = None\<rparr>,
          PROMPT = \<lparr>input_variables = [''history'', ''input'']\<rparr>\<rparr>
        \<lparr>kw_memory = Some \<lparr>memory_variables = [''history''],
                            BaseMemory.input_key = Some ''input''\<rparr>,
          kw_prompt = None, kw_input_key = None, kw_output_key = None\<rparr>
     = Inr \<lparr>memory = Some \<lparr>memory_variables = [''history''],
                             BaseMemory.input_key = Some ''input''\<rparr>,
            prompt = \<lparr>input_variables = [''history'', ''input'']\<rparr>,
            input_key = ''input'', output_key = ''response''\<rparr>
   \<and> setattr \<lparr>memory = Some \<lparr>memory_variables = [''history''],
                                  BaseMemory.input_key = Some ''input''\<rparr>,
                 prompt = \<lparr>input_variables = [''history'', ''input'']\<rparr>,
                 input_key = ''input'', output_key = ''response''\<rparr>
         (Set_input_key ''history'')
       = \<lparr>memory = Some \<lparr>memory_variables = [''history''],
                           BaseMemory.input_key = Some ''input''\<rparr>,
          prompt = \<lparr>input_variables = [''history'', ''input'']\<rparr>,
          input_key = ''history'', output_key = ''response''\<rparr>
   \<and> ''history'' \<in> set [''history'']"
  by (simp add: init_def validate_prompt_input_variables_def assign_fields_def Let_def)

text \<open>
  C6, amended: every chain that the constructor returns has a memory store, and as
  returned its input key is not one of the memory's variables (I1) and the memory's
  variables together with the input key are all variables of the prompt (I2).
\<close>

theorem invariants_after_construction:
  assumes "init dflt kw = Inr c"
  shows "\<exists>m. memory c = Some m
           \<and> input_key c \<notin> set (memory_variables m)
           \<and> set (memory_variables m) \<union> {input_key c} \<subseteq> set (input_variables (prompt c))"
proof -
  have c: "c = assign_fields dflt kw"
    using assms by (rule init_Inr_fields)
  obtain m where m: "memory (assign_fields dflt kw) = Some m"
    by (simp add: memory_assign_fields)
  have "input_key (assign_fields dflt kw) \<notin> set (memory_variables m)
        \<and> set (memory_variables m @ [input_key (assign_fields dflt kw)])
            \<subseteq> set (input_variables (prompt (assign_fields dflt kw)))"
    using assms init_branches [OF m] by (simp split: if_splits)
  with c m show ?thesis
    by simp
qed

theorem invariants_after_construction_witness:
  "init \<lparr>ConversationBufferMemory =
            \<lparr>memory_variables = [''history''], BaseMemory.input_key = None\<rparr>,
          PROMPT = \<lparr>input_variables = [''history'', ''input'']\<rparr>\<rparr>
        \<lparr>kw_memory = Some \<lparr>memory_variables = [''history''],
                            BaseMemory.input_key = Some ''input''\<rparr>,
          kw_prompt = None, kw_input_key = None, kw_output_key = None\<rparr>
     = Inr \<lparr>memory = Some \<lparr>memory_variables = [''history''],
                             BaseMemory.input_key = Some ''input''\<rparr>,
            prompt = \<lparr>input_variables = [''history'', ''input'']\<rparr>,
            input_key = ''input'', output_key = ''response''\<rparr>
   \<and> ''input'' \<notin> set [''history'']
   \<and> set [''history''] \<union> {''input''} \<subseteq> set [''history'', ''input'']"
  (is "init ?D ?KW = Inr ?C \<and> _")
proof -
  have c: "init ?D ?KW = Inr ?C"
    by (simp add: init_def validate_prompt_input_variables_def assign_fields_def Let_def)
  from invariants_after_construction [OF c]
  have "input_key ?C \<notin> set [''history'']
        \<and> set [''history''] \<union> {input_key ?C} \<subseteq> set (input_variables (prompt ?C))"
    by simp
  with c show ?thesis
    by simp
qed


section \<open>What the construction does not depend on\<close>

text \<open>
  C8. Two constructor calls that differ only in the output key fail with the same error
  or succeed together, and when they succeed the two chains have the same required input
  keys.
\<close>

theorem output_key_irrelevant:
  "(\<forall>e. init dflt (kw\<lparr>kw_output_key := a\<rparr>) = Inl e
          \<longleftrightarrow> init dflt (kw\<lparr>kw_output_key := b\<rparr>) = Inl e)
   \<and> ((\<exists>c. init dflt (kw\<lparr>kw_output_key := a\<rparr>) = Inr c)
          \<longleftrightarrow> (\<exists>c. init dflt (kw\<lparr>kw_output_key := b\<rparr>) = Inr c))
   \<and> (\<forall>c1 c2. init dflt (kw\<lparr>kw_output_key := a\<rparr>) = Inr c1
              \<and> init dflt (kw\<lparr>kw_output_key := b\<rparr>) = Inr c2
          \<longrightarrow> input_keys c1 = input_keys c2)"
  unfolding init_output_key [where kw = kw and a = a] init_output_key [where kw = kw and a = b]
  by (cases "init dflt kw") (auto simp add: input_keys_def)

theorem output_key_irrelevant_witness:
  "init \<lparr>ConversationBufferMemory =
            \<lparr>memory_variables = [''history''], BaseMemory.input_key = None\<rparr>,
          PROMPT = \<lparr>input_variables = [''history'', ''input'']\<rparr>\<rparr>
        \<lparr>kw_memory = Some \<lparr>memory_variables = [''history''],
                            BaseMemory.input_key = Some ''input''\<rparr>,
          kw_prompt = None, kw_input_key = None, kw_output_key = Some ''answer''\<rparr>
     = Inr \<lparr>memory = Some \<lparr>memory_variables = [''history''],
                             BaseMemory.input_key = Some ''input''\<rparr>,
            prompt = \<lparr>input_variables = [''history'', ''input'']\<rparr>,
            input_key = ''input'', output_key = ''answer''\<rparr>
   \<and> init \<lparr>ConversationBufferMemory =
              \<lparr>memory_variables = [''history''], BaseMemory.input_key = None\<rparr>,
            PROMPT = \<lparr>input_variables = [''history'', ''input'']\<rparr>\<rparr>
          \<lparr>kw_memory = Some \<lparr>memory_variables = [''history''],
                              BaseMemory.input_key = Some ''input''\<rparr>,
            kw_prompt = None, kw_input_key = None, kw_output_key = None\<rparr>
       = Inr \<lparr>memory = Some \<lparr>memory_variables = [''history''],
                               BaseMemory.input_key = Some ''input''\<rparr>,
              prompt = \<lparr>input_variables = [''history'', ''input'']\<rparr>,
              input_key = ''input'', output_key = ''response''\<rparr>
   \<and> input_keys \<lparr>memory = Some \<lparr>memory_variables = [''history''],
                                     BaseMemory.input_key = Some ''input''\<rparr>,
                    prompt = \<lparr>input_variables = [''history'', ''input'']\<rparr>,
                    input_key = ''input'', output_key = ''answer''\<rparr>
       = input_keys \<lparr>memory = Some \<lparr>memory_variables = [''history''],
                                       BaseMemory.input_key = Some ''input''\<rparr>,
                      prompt = \<lparr>input_variables = [''history'', ''input'']\<rparr>,
                      input_key = ''input'', output_key = ''response''\<rparr>"
  (is "init ?D ?KWa = Inr ?Ca \<and> init ?D ?KWb = Inr ?Cb \<and> _")
proof -
  have a: "init ?D (?KWb\<lparr>kw_output_key := Some ''answer''\<rparr>) = Inr ?Ca"
    by (simp add: init_def validate_prompt_input_variables_def assign_fields_def Let_def)
  have b: "init ?D (?KWb\<lparr>kw_output_key := None\<rparr>) = Inr ?Cb"
    by (simp add: init_def validate_prompt_input_variables_def assign_fields_def Let_def)
  from output_key_irrelevant [where dflt = ?D and kw = ?KWb and a = "Some ''answer''" and b = None] a b
  have "input_keys ?Ca = input_keys ?Cb"
    by blast
  with a b show ?thesis
    by simp
qed

text \<open>
  C10. The validator always reads the variables of a store: the field \<open>memory\<close> holds
  the store that was passed or, when the argument is left out, the one the default factory
  builds. Reading \<open>memory_variables\<close> never meets \<open>None\<close>, a constructed chain has a
  store, leaving the argument out is the same as passing the default store, and the
  default store's variables are the ones tested against the input key.
\<close>

theorem memory_always_attached:
  "memory (assign_fields dflt kw) =
     Some (case kw_memory kw of None \<Rightarrow> ConversationBufferMemory dflt | Some m \<Rightarrow> m)
   \<and> init dflt kw \<noteq> Inl AttributeError
   \<and> (\<forall>c. init dflt kw = Inr c \<longrightarrow> memory c \<noteq> None)
   \<and> (kw_memory kw = None
        \<longrightarrow> init dflt kw = init dflt (kw\<lparr>kw_memory := Some (ConversationBufferMemory dflt)\<rparr>))
   \<and> (kw_memory kw = None
        \<and> input_key (assign_fields dflt kw)
            \<in> set (memory_variables (ConversationBufferMemory dflt))
        \<longrightarrow> init dflt kw =
              Inl (InputKeyCollision (input_key (assign_fields dflt kw))
                     (memory_variables (ConversationBufferMemory dflt))))"
proof -
  obtain m where m: "memory (assign_fields dflt kw) = Some m"
    by (simp add: memory_assign_fields)
  have 1: "init dflt kw \<noteq> Inl AttributeError"
    using init_branches [OF m] by simp
  have 2: "\<forall>c. init dflt kw = Inr c \<longrightarrow> memory c \<noteq> None"
    using m by (auto dest: init_Inr_fields)
  have 3: "kw_memory kw = None
        \<longrightarrow> init dflt kw = init dflt (kw\<lparr>kw_memory := Some (ConversationBufferMemory dflt)\<rparr>)"
    by (simp add: init_default_memory)
  have 4: "kw_memory kw = None
        \<and> input_key (assign_fields dflt kw)
            \<in> set (memory_variables (ConversationBufferMemory dflt))
        \<longrightarrow> init dflt kw =
              Inl (InputKeyCollision (input_key (assign_fields dflt kw))
                     (memory_variables (ConversationBufferMemory dflt)))"
    using init_branches [OF m] m by (auto simp add: memory_assign_fields)
  from 1 2 3 4 show ?thesis
    by (simp add: memory_assign_fields)
qed

theorem memory_always_attached_witness:
  "kw_memory \<lparr>kw_memory = None, kw_prompt = None,
               kw_input_key = Some ''history'', kw_output_key = None\<rparr> = None
   \<and> ''history'' \<in> set [''history'']
   \<and> init \<lparr>ConversationBufferMemory =
              \<lparr>memory_variables = [''history''], BaseMemory.input_key = Some ''input''\<rparr>,
            PROMPT = \<lparr>input_variables = [''history'', ''input'']\<rparr>\<rparr>
          \<lparr>kw_memory = None, kw_prompt = None,
            kw_input_key = Some ''history'', kw_output_key = None\<rparr>
       = Inl (InputKeyCollision ''history'' [''history''])"
  (is "_ \<and> _ \<and> init ?D ?KW = _")
proof -
  have "kw_memory ?KW = None
        \<and> input_key (assign_fields ?D ?KW)
            \<in> set (memory_variables (ConversationBufferMemory ?D))"
    by (simp add: assign_fields_def)
  with memory_always_attached [of ?D ?KW]
  have "init ?D ?KW =
          Inl (InputKeyCollision (input_key (assign_fields ?D ?KW))
                 (memory_variables (ConversationBufferMemory ?D)))"
    by blast
  then show ?thesis
    by (simp add: assign_fields_def)
qed

end
